theory Spec2Isabelle
  imports Main
begin

section \<open>JavaScript values used by the conversational surfaces\<close>

text \<open>
  Strings are \<open>string\<close>; a character stands for one code unit below 256.  A thrown
  value is \<open>Error msg\<close>.  \<open>String.prototype.trim\<close> removes the white space and line
  terminators of ECMAScript from both ends; below 256 these are TAB, LF, VT, FF, CR, SP
  and NBSP.  A string is falsy exactly when it is empty; the empty string is \<open>[]\<close>.
\<close>

datatype js_error = Error string

definition isWhiteSpace :: "char \<Rightarrow> bool" where
  "isWhiteSpace c =
     (c \<in> set [CHR 0x09, CHR 0x0A, CHR 0x0B, CHR 0x0C, CHR 0x0D, CHR 0x20, CHR 0xA0])"

definition trim :: "string \<Rightarrow> string" where
  "trim s = rev (dropWhile isWhiteSpace (rev (dropWhile isWhiteSpace s)))"

fun toString :: "nat \<Rightarrow> string" where
  "toString n =
     (if n < 10 then [char_of (48 + n)]
      else toString (n div 10) @ [char_of (48 + n mod 10)])"


section \<open>services/api.ts\<close>

datatype Role = User | Assistant

record ChatMessage =
  role :: Role
  content :: string

text \<open>\<open>ChatResponse\<close>: the fields \<open>text\<close> and \<open>session_id\<close> of the reply.\<close>

record ChatResponse =
  r_text :: string
  r_session_id :: string

text \<open>
  The object given to \<open>JSON.stringify\<close> in \<open>chatWithAgent\<close>.  A key whose value is
  \<open>undefined\<close> is left out of the JSON text: \<open>b_session_id = None\<close>.
\<close>

record ChatBody =
  b_message :: string
  b_history :: "ChatMessage list"
  b_session_id :: "string option"
  b_inputType :: string

record FetchCall =
  url :: string
  http_method :: string
  content_type :: string
  body :: ChatBody

text \<open>
  What the network answers to one \<open>fetch\<close>: the promise rejects (no connection), or it
  resolves to a response with a status and a status text.  The body of the response is
  JSON text that \<open>response.json()\<close> parses to a payload (\<open>Responded\<close>), or it is empty or
  not JSON, and \<open>response.json()\<close> rejects with an error (\<open>RespondedUnparsable\<close>).
  \<open>response.ok\<close> is true exactly for the statuses 200 to 299.
\<close>

datatype fetch_outcome =
    Rejected js_error
  | Responded nat string ChatResponse
  | RespondedUnparsable nat string js_error

definition ok :: "nat \<Rightarrow> bool" where
  "ok status = (200 \<le> status \<and> status \<le> 299)"

text \<open>
  \<open>chatWithAgent\<close> up to its \<open>await fetch(...)\<close>: the one call it issues.  The
  parameter \<open>inputType\<close> has the default \<open>"Text"\<close>.
\<close>

definition chatWithAgent_fetch ::
  "string \<Rightarrow> string \<Rightarrow> ChatMessage list \<Rightarrow> string option \<Rightarrow> string option \<Rightarrow> FetchCall"
where
  "chatWithAgent_fetch BACKEND_URL message history sessionId inputType =
     \<lparr>url = BACKEND_URL @ ''/chat'',
      http_method = ''POST'',
      content_type = ''application/json'',
      body = \<lparr>b_message = message,
              b_history = history,
              b_session_id = sessionId,
              b_inputType = (case inputType of None \<Rightarrow> ''Text'' | Some t \<Rightarrow> t)\<rparr>\<rparr>"

text \<open>
  \<open>chatWithAgent\<close> after the \<open>await\<close>: it throws on a status that is not ok, and
  otherwise returns \<open>response.json()\<close>, the payload or the rejection.
\<close>

definition chatWithAgent_result :: "fetch_outcome \<Rightarrow> js_error + ChatResponse" where
  "chatWithAgent_result outcome =
     (case outcome of
        Rejected e \<Rightarrow> Inl e
      | Responded status statusText payload \<Rightarrow>
          if \<not> ok status then Inl (Error (''Chat failed: '' @ statusText))
          else Inr payload
      | RespondedUnparsable status statusText e \<Rightarrow>
          if \<not> ok status then Inl (Error (''Chat failed: '' @ statusText))
          else Inl e)"

text \<open>
  The whole call against a network that answers \<open>net\<close> to the call it is given:
  the list of calls issued, and the result.
\<close>

definition chatWithAgent ::
  "string \<Rightarrow> (FetchCall \<Rightarrow> fetch_outcome) \<Rightarrow> string \<Rightarrow> ChatMessage list \<Rightarrow> string option
     \<Rightarrow> string option \<Rightarrow> FetchCall list \<times> (js_error + ChatResponse)"
where
  "chatWithAgent BACKEND_URL net message history sessionId inputType =
     (let call = chatWithAgent_fetch BACKEND_URL message history sessionId inputType
      in ([call], chatWithAgent_result (net call)))"


section \<open>Audio playback\<close>

text \<open>
  An \<open>Audio\<close> element made by \<open>new Audio(audioUrl)\<close>: the blob behind its URL, its
  \<open>paused\<close> flag (true until \<open>play()\<close> succeeds, true again after \<open>pause()\<close> or at the
  end of the clip) and its \<open>currentTime\<close>.  The outcome of one synthesis: the stage at
  which it fails (the fetch rejects, the response is not ok and has this status text,
  \<open>blob()\<close> rejects, \<open>play()\<close> rejects), or the blob that starts playing.  What a function
  passes to \<open>console.error\<close> is a list of labelled errors.
\<close>

type_synonym blob = string

type_synonym console = "(string \<times> js_error) list"

record Audio =
  src :: blob
  paused :: bool
  currentTime :: nat

datatype tts_outcome =
    TtsFetchRejected js_error
  | TtsNotOk string
  | TtsBlobRejected js_error
  | TtsPlayRejected blob js_error
  | TtsPlaying blob

definition new_Audio :: "blob \<Rightarrow> Audio" where
  "new_Audio b = \<lparr>src = b, paused = True, currentTime = 0\<rparr>"

definition active :: "Audio list \<Rightarrow> nat" where
  "active as = length (filter (\<lambda>a. \<not> paused a) as)"


section \<open>components/Chat.tsx\<close>

text \<open>
  The state of the text surface: the five \<open>useState\<close> cells, and the audio elements that
  \<open>playTTS\<close> has created.  The handlers are bound in the JSX of every render, so a
  handler started by an event reads the cells as they are at that event.
\<close>

record ChatState =
  messages :: "ChatMessage list"
  inputText :: string
  isLoading :: bool
  sessionId :: "string option"
  error :: "string option"
  audios :: "Audio list"

definition Chat_initial :: ChatState where
  "Chat_initial =
     \<lparr>messages = [], inputText = [], isLoading = False, sessionId = None, error = None,
      audios = []\<rparr>"

text \<open>
  The bindings that the suspended \<open>sendMessage\<close> keeps across its \<open>await\<close>: the
  \<open>messages\<close> of the render it was started from, and \<open>updatedMessages\<close>.
\<close>

record SendFrame =
  f_messages :: "ChatMessage list"
  f_updatedMessages :: "ChatMessage list"

text \<open>
  \<open>sendMessage\<close> up to the \<open>await\<close>.  \<open>None\<close>: it returned at its guard, having done
  nothing.  Otherwise the call issued and the frame waiting for the answer.
\<close>

definition sendMessage_begin ::
  "string \<Rightarrow> ChatState \<Rightarrow> ChatState \<times> (FetchCall \<times> SendFrame) option"
where
  "sendMessage_begin BACKEND_URL s =
     (if trim (inputText s) = [] \<or> isLoading s then (s, None)
      else
        let userMessage = trim (inputText s);
            updatedMessages = messages s @ [\<lparr>role = User, content = userMessage\<rparr>];
            s1 = s\<lparr>inputText := [], error := None, isLoading := True,
                   messages := updatedMessages\<rparr>
        in (s1,
            Some (chatWithAgent_fetch BACKEND_URL userMessage (messages s) (sessionId s)
                    (Some ''text''),
                  \<lparr>f_messages = messages s, f_updatedMessages = updatedMessages\<rparr>)))"

text \<open>
  \<open>sendMessage\<close> from the answer on: the \<open>try\<close> body after the \<open>await\<close>, the \<open>catch\<close>
  and the \<open>finally\<close>.  \<open>isSpeechEnabled\<close> is the prop of the render that \<open>sendMessage\<close>
  was started from.  The second component is the text handed to \<open>playTTS\<close>, which is
  started and not awaited.
\<close>

definition sendMessage_resume ::
  "bool \<Rightarrow> SendFrame \<Rightarrow> fetch_outcome \<Rightarrow> ChatState \<Rightarrow> ChatState \<times> string option"
where
  "sendMessage_resume isSpeechEnabled f outcome s =
     (case chatWithAgent_result outcome of
        Inr result \<Rightarrow>
          let s1 = (if r_session_id result \<noteq> [] then s\<lparr>sessionId := Some (r_session_id result)\<rparr>
                    else s);
              s2 = s1\<lparr>messages :=
                         f_updatedMessages f @ [\<lparr>role = Assistant, content = r_text result\<rparr>]\<rparr>
          in (s2\<lparr>isLoading := False\<rparr>,
              if isSpeechEnabled then Some (r_text result) else None)
      | Inl err \<Rightarrow>
          (s\<lparr>error := Some ''Failed to send message. Please try again.'',
             messages := f_messages f,
             isLoading := False\<rparr>,
           None))"

text \<open>
  \<open>playTTS\<close> of the text surface.  The \<open>try\<close> body gives the state it reached and the
  error it threw, if any; a response that is not ok makes it return, without an error.
  \<open>playTTS\<close> itself adds the \<open>catch\<close>, which only logs: the result is the error
  thrown to the caller (none), what was logged, and the state.
\<close>

definition Chat_playTTS_try :: "string \<Rightarrow> tts_outcome \<Rightarrow> ChatState \<Rightarrow> js_error option \<times> ChatState"
where
  "Chat_playTTS_try text outcome s =
     (case outcome of
        TtsFetchRejected e \<Rightarrow> (Some e, s)
      | TtsNotOk statusText \<Rightarrow> (None, s)
      | TtsBlobRejected e \<Rightarrow> (Some e, s)
      | TtsPlayRejected b e \<Rightarrow> (Some e, s\<lparr>audios := audios s @ [new_Audio b]\<rparr>)
      | TtsPlaying b \<Rightarrow> (None, s\<lparr>audios := audios s @ [(new_Audio b)\<lparr>paused := False\<rparr>]\<rparr>))"

definition Chat_playTTS ::
  "string \<Rightarrow> tts_outcome \<Rightarrow> ChatState \<Rightarrow> js_error option \<times> console \<times> ChatState"
where
  "Chat_playTTS text outcome s =
     (case Chat_playTTS_try text outcome s of
        (None, s1) \<Rightarrow> (None, [], s1)
      | (Some err, s1) \<Rightarrow> (None, [(''TTS error:'', err)], s1))"

definition clearChat :: "ChatState \<Rightarrow> ChatState" where
  "clearChat s = s\<lparr>messages := [], sessionId := None, error := None\<rparr>"


section \<open>Runs of the text surface\<close>

text \<open>
  The text surface with its pending requests, and the events that reach it: typing into
  the input, a submit (button or Enter), the answer to the oldest pending request, and the
  Clear button.
\<close>

record ChatWorld =
  chat :: ChatState
  chat_inflight :: "(FetchCall \<times> SendFrame) list"

datatype ChatEvent =
    SetInputText string
  | SendMessage
  | Answer fetch_outcome
  | ClearChat

definition Chat_step :: "string \<Rightarrow> bool \<Rightarrow> ChatWorld \<Rightarrow> ChatEvent \<Rightarrow> ChatWorld" where
  "Chat_step BACKEND_URL isSpeechEnabled w ev =
     (case ev of
        SetInputText t \<Rightarrow> w\<lparr>chat := (chat w)\<lparr>inputText := t\<rparr>\<rparr>
      | SendMessage \<Rightarrow>
          (case sendMessage_begin BACKEND_URL (chat w) of
             (s, None) \<Rightarrow> w\<lparr>chat := s\<rparr>
           | (s, Some p) \<Rightarrow> \<lparr>chat = s, chat_inflight = chat_inflight w @ [p]\<rparr>)
      | Answer outcome \<Rightarrow>
          (case chat_inflight w of
             [] \<Rightarrow> w
           | p # ps \<Rightarrow>
               \<lparr>chat = fst (sendMessage_resume isSpeechEnabled (snd p) outcome (chat w)),
                chat_inflight = ps\<rparr>)
      | ClearChat \<Rightarrow> w\<lparr>chat := clearChat (chat w)\<rparr>)"

definition Chat_world_initial :: ChatWorld where
  "Chat_world_initial = \<lparr>chat = Chat_initial, chat_inflight = []\<rparr>"

text \<open>
  One turn of the text surface: the user types \<open>text\<close> and submits, and the request is
  answered by \<open>outcome\<close> before anything else happens.  The result carries the calls issued.
\<close>

definition chat_turn ::
  "string \<Rightarrow> bool \<Rightarrow> ChatState \<Rightarrow> string \<times> fetch_outcome \<Rightarrow> ChatState \<times> FetchCall list"
where
  "chat_turn BACKEND_URL isSpeechEnabled s t =
     (case t of (text, outcome) \<Rightarrow>
        (case sendMessage_begin BACKEND_URL (s\<lparr>inputText := text\<rparr>) of
           (s1, None) \<Rightarrow> (s1, [])
         | (s1, Some (call, f)) \<Rightarrow>
             (fst (sendMessage_resume isSpeechEnabled f outcome s1), [call])))"

fun chat_run ::
  "string \<Rightarrow> bool \<Rightarrow> ChatState \<Rightarrow> (string \<times> fetch_outcome) list \<Rightarrow> ChatState \<times> FetchCall list"
where
  "chat_run BACKEND_URL isSpeechEnabled s [] = (s, [])"
| "chat_run BACKEND_URL isSpeechEnabled s (t # ts) =
     (case chat_turn BACKEND_URL isSpeechEnabled s t of
        (s1, calls) \<Rightarrow>
          (case chat_run BACKEND_URL isSpeechEnabled s1 ts of
             (s2, calls2) \<Rightarrow> (s2, calls @ calls2)))"

text \<open>The turns that a list of successful exchanges commits, in order.\<close>

definition committed :: "(string \<times> ChatResponse) list \<Rightarrow> ChatMessage list" where
  "committed ts =
     concat (map (\<lambda>(text, payload).
                    [\<lparr>role = User, content = text\<rparr>,
                     \<lparr>role = Assistant, content = r_text payload\<rparr>]) ts)"


section \<open>components/VoiceAssistant.tsx\<close>

datatype VoiceState = idle | listening | processing | speaking

text \<open>
  The state of the voice surface: the six \<open>useState\<close> cells and the two refs.
  \<open>recognitionRef\<close> is \<open>None\<close> for \<open>null\<close>; \<open>Some started\<close> is the recognition object,
  which is capturing when \<open>started\<close>.  \<open>audioRef\<close> is the position in \<open>audios\<close> of the element
  it points to.
\<close>

record VoiceAssistantState =
  voiceState :: VoiceState
  transcript :: string
  response :: string
  error :: "string option"
  history :: "ChatMessage list"
  sessionId :: "string option"
  recognitionRef :: "bool option"
  audioRef :: "nat option"
  audios :: "Audio list"

definition VoiceAssistant_initial :: VoiceAssistantState where
  "VoiceAssistant_initial =
     \<lparr>voiceState = idle, transcript = [], response = [], error = None, history = [],
      sessionId = None, recognitionRef = None, audioRef = None, audios = []\<rparr>"

text \<open>
  The bindings of one render that the functions declared in it close over.  Every render
  declares its own \<open>handleUserSpeech\<close>, which reads \<open>history\<close>, \<open>sessionId\<close> and
  \<open>isSpeechEnabled\<close> of that render.
\<close>

record VoiceScope =
  scope_voiceState :: VoiceState
  scope_history :: "ChatMessage list"
  scope_sessionId :: "string option"
  scope_isSpeechEnabled :: bool

definition render_scope :: "bool \<Rightarrow> VoiceAssistantState \<Rightarrow> VoiceScope" where
  "render_scope isSpeechEnabled s =
     \<lparr>scope_voiceState = voiceState s, scope_history = history s,
      scope_sessionId = sessionId s, scope_isSpeechEnabled = isSpeechEnabled\<rparr>"

text \<open>
  The effect with the dependency list \<open>[]\<close> runs once, after the first render, whose cells
  hold their initial values.  It creates the recognition object when the browser has one
  and installs \<open>onresult\<close>, \<open>onerror\<close> and \<open>onend\<close>; these callbacks are never installed
  again, so the \<open>handleUserSpeech\<close> and the \<open>voiceState\<close> they name are those of the first
  render.
\<close>

definition mount_scope :: "bool \<Rightarrow> VoiceScope" where
  "mount_scope isSpeechEnabled = render_scope isSpeechEnabled VoiceAssistant_initial"

definition VoiceAssistant_mount :: "bool \<Rightarrow> VoiceAssistantState" where
  "VoiceAssistant_mount supported =
     (if \<not> supported then
        VoiceAssistant_initial
          \<lparr>error := Some ''Speech recognition is not supported in this browser. Try Chrome or Edge.''\<rparr>
      else VoiceAssistant_initial\<lparr>recognitionRef := Some False\<rparr>)"

text \<open>\<open>recognition.start()\<close> throws when the object has already been started.\<close>

definition startListening :: "VoiceAssistantState \<Rightarrow> VoiceAssistantState" where
  "startListening s =
     (let s1 = s\<lparr>error := None, transcript := [], response := []\<rparr>
      in case recognitionRef s1 of
           None \<Rightarrow> s1
         | Some started \<Rightarrow>
             if started then s1\<lparr>error := Some ''Failed to start microphone. Please try again.''\<rparr>
             else s1\<lparr>recognitionRef := Some True, voiceState := listening\<rparr>)"

definition stopSpeaking :: "VoiceAssistantState \<Rightarrow> VoiceAssistantState" where
  "stopSpeaking s =
     (let s1 = (case audioRef s of
                  None \<Rightarrow> s
                | Some i \<Rightarrow>
                    if i < length (audios s)
                    then s\<lparr>audios := (audios s)[i := (audios s ! i)\<lparr>paused := True, currentTime := 0\<rparr>]\<rparr>
                    else s)
      in s1\<lparr>voiceState := idle\<rparr>)"

text \<open>
  \<open>playTTS\<close> of the voice surface: the \<open>try\<close> body with the error it threw, if any, and
  the function with its \<open>catch\<close>, which logs and sets the state to idle: the error thrown
  to the caller (none), what was logged, and the state.
\<close>

definition playTTS_try ::
  "string \<Rightarrow> tts_outcome \<Rightarrow> VoiceAssistantState \<Rightarrow> js_error option \<times> VoiceAssistantState"
where
  "playTTS_try text outcome s =
     (case outcome of
        TtsFetchRejected e \<Rightarrow> (Some e, s)
      | TtsNotOk statusText \<Rightarrow> (Some (Error ''TTS failed''), s)
      | TtsBlobRejected e \<Rightarrow> (Some e, s)
      | TtsPlayRejected b e \<Rightarrow>
          (Some e, s\<lparr>audios := audios s @ [new_Audio b], audioRef := Some (length (audios s))\<rparr>)
      | TtsPlaying b \<Rightarrow>
          (None, s\<lparr>audios := audios s @ [(new_Audio b)\<lparr>paused := False\<rparr>],
                   audioRef := Some (length (audios s))\<rparr>))"

definition playTTS ::
  "string \<Rightarrow> tts_outcome \<Rightarrow> VoiceAssistantState
     \<Rightarrow> js_error option \<times> console \<times> VoiceAssistantState"
where
  "playTTS text outcome s =
     (case playTTS_try text outcome s of
        (None, s1) \<Rightarrow> (None, [], s1)
      | (Some err, s1) \<Rightarrow> (None, [(''TTS error:'', err)], s1\<lparr>voiceState := idle\<rparr>))"

text \<open>\<open>audio.onended\<close> of the element at position \<open>i\<close>: the clip has reached its end.\<close>

definition audio_onended :: "nat \<Rightarrow> VoiceAssistantState \<Rightarrow> VoiceAssistantState" where
  "audio_onended i s =
     (if i < length (audios s)
      then s\<lparr>audios := (audios s)[i := (audios s ! i)\<lparr>paused := True\<rparr>], voiceState := idle\<rparr>
      else s)"

text \<open>
  \<open>handleUserSpeech\<close> of the render with the bindings \<open>scope\<close>, up to its \<open>await\<close>: the new
  state, the calls of \<open>onTranscript\<close>, and the call issued (\<open>None\<close> when it returned at its
  guard).
\<close>

definition handleUserSpeech_begin ::
  "string \<Rightarrow> VoiceScope \<Rightarrow> string \<Rightarrow> VoiceAssistantState
     \<Rightarrow> VoiceAssistantState \<times> (string \<times> Role) list \<times> FetchCall option"
where
  "handleUserSpeech_begin BACKEND_URL scope text s =
     (if trim text = [] then (s\<lparr>voiceState := idle\<rparr>, [], None)
      else
        (s\<lparr>voiceState := processing\<rparr>,
         [(text, User)],
         Some (chatWithAgent_fetch BACKEND_URL text (scope_history scope) (scope_sessionId scope)
                 (Some ''audio''))))"

text \<open>
  \<open>handleUserSpeech\<close> from the answer on; \<open>tts\<close> is the outcome of the synthesis that
  \<open>playTTS\<close> awaits when speech output is enabled.
\<close>

definition handleUserSpeech_resume ::
  "VoiceScope \<Rightarrow> string \<Rightarrow> fetch_outcome \<Rightarrow> tts_outcome \<Rightarrow> VoiceAssistantState
     \<Rightarrow> VoiceAssistantState \<times> (string \<times> Role) list"
where
  "handleUserSpeech_resume scope text outcome tts s =
     (case chatWithAgent_result outcome of
        Inr result \<Rightarrow>
          let s1 = (if r_session_id result \<noteq> [] then s\<lparr>sessionId := Some (r_session_id result)\<rparr>
                    else s);
              newHistory = scope_history scope
                 @ [\<lparr>role = User, content = text\<rparr>,
                    \<lparr>role = Assistant, content = r_text result\<rparr>];
              s2 = s1\<lparr>history := newHistory, response := r_text result\<rparr>;
              s3 = (if scope_isSpeechEnabled scope
                    then snd (snd (playTTS (r_text result) tts (s2\<lparr>voiceState := speaking\<rparr>)))
                    else s2)
          in (s3\<lparr>voiceState := idle\<rparr>, [(r_text result, Assistant)])
      | Inl err \<Rightarrow>
          (s\<lparr>error := Some ''Failed to get response. Please try again.'', voiceState := idle\<rparr>,
           []))"

text \<open>
  The callbacks installed by the mount effect.  \<open>isSpeechEnabled\<close> is the prop of the first
  render.  With \<open>continuous = false\<close> the recognition ends after its final result.
\<close>

definition recognition_onresult ::
  "string \<Rightarrow> bool \<Rightarrow> string \<Rightarrow> bool \<Rightarrow> VoiceAssistantState
     \<Rightarrow> VoiceAssistantState \<times> (string \<times> Role) list \<times> FetchCall option"
where
  "recognition_onresult BACKEND_URL isSpeechEnabled transcriptText isFinal s =
     (let s1 = s\<lparr>transcript := transcriptText\<rparr>
      in if isFinal
         then handleUserSpeech_begin BACKEND_URL (mount_scope isSpeechEnabled) transcriptText s1
         else (s1, [], None))"

definition recognition_onend :: "bool \<Rightarrow> VoiceAssistantState \<Rightarrow> VoiceAssistantState" where
  "recognition_onend isSpeechEnabled s =
     (let s1 = (case recognitionRef s of None \<Rightarrow> s | Some started \<Rightarrow> s\<lparr>recognitionRef := Some False\<rparr>)
      in if scope_voiceState (mount_scope isSpeechEnabled) = listening
         then s1\<lparr>voiceState := processing\<rparr>
         else s1)"

definition clearConversation :: "VoiceAssistantState \<Rightarrow> VoiceAssistantState" where
  "clearConversation s =
     s\<lparr>history := [], sessionId := None, transcript := [], response := [], error := None\<rparr>"

text \<open>
  One voice turn as the browser drives it: the button starts the capture; when the
  recognition is running it delivers its final result to \<open>onresult\<close> and ends, and the
  suspended \<open>handleUserSpeech\<close> continues with the answer.  The result carries the calls
  issued by the turn.
\<close>

definition voice_turn ::
  "string \<Rightarrow> bool \<Rightarrow> VoiceAssistantState \<Rightarrow> string \<times> fetch_outcome \<times> tts_outcome
     \<Rightarrow> VoiceAssistantState \<times> FetchCall list"
where
  "voice_turn BACKEND_URL isSpeechEnabled s t =
     (case t of (text, outcome, tts) \<Rightarrow>
        let s0 = startListening s
        in if recognitionRef s0 \<noteq> Some True then (s0, [])
           else
             (case recognition_onresult BACKEND_URL isSpeechEnabled text True s0 of
                (s1, evs, None) \<Rightarrow> (recognition_onend isSpeechEnabled s1, [])
              | (s1, evs, Some call) \<Rightarrow>
                  (fst (handleUserSpeech_resume (mount_scope isSpeechEnabled) text outcome tts
                          (recognition_onend isSpeechEnabled s1)),
                   [call])))"

fun voice_run ::
  "string \<Rightarrow> bool \<Rightarrow> VoiceAssistantState \<Rightarrow> (string \<times> fetch_outcome \<times> tts_outcome) list
     \<Rightarrow> VoiceAssistantState \<times> FetchCall list"
where
  "voice_run BACKEND_URL isSpeechEnabled s [] = (s, [])"
| "voice_run BACKEND_URL isSpeechEnabled s (t # ts) =
     (case voice_turn BACKEND_URL isSpeechEnabled s t of
        (s1, calls) \<Rightarrow>
          (case voice_run BACKEND_URL isSpeechEnabled s1 ts of
             (s2, calls2) \<Rightarrow> (s2, calls @ calls2)))"


section \<open>services/elevenlabs.ts\<close>

text \<open>
  The module keeps one variable, \<open>currentAudio\<close>: \<open>None\<close> for \<open>null\<close>, or the position
  in \<open>elements\<close> of the audio element it points to; \<open>elements\<close> are the audio elements that
  \<open>speakText\<close> has created.
\<close>

record SpeechService =
  currentAudio :: "nat option"
  elements :: "Audio list"

definition SpeechService_initial :: SpeechService where
  "SpeechService_initial = \<lparr>currentAudio = None, elements = []\<rparr>"

text \<open>\<open>stopSpeaking\<close> of the module (the voice surface has a function of the same name).\<close>

definition stopSpeaking_service :: "SpeechService \<Rightarrow> SpeechService" where
  "stopSpeaking_service sv =
     (case currentAudio sv of
        None \<Rightarrow> sv
      | Some i \<Rightarrow>
          (if i < length (elements sv)
           then sv\<lparr>elements := (elements sv)[i := (elements sv ! i)\<lparr>paused := True, currentTime := 0\<rparr>]\<rparr>
           else sv)\<lparr>currentAudio := None\<rparr>)"

text \<open>
  \<open>speakText\<close> up to the start of the playback: it stops the current playback first.  A
  failure of the request (the fetch, the status, the blob) is caught, logged and thrown
  again; a rejection of \<open>play()\<close> rejects the promise that \<open>speakText\<close> returns, outside the
  \<open>catch\<close>.  The result is the error with which the call rejects (\<open>None\<close> while the clip
  plays and the promise is pending), what was logged, and the module state.
\<close>

definition speakText ::
  "string \<Rightarrow> tts_outcome \<Rightarrow> SpeechService \<Rightarrow> js_error option \<times> console \<times> SpeechService"
where
  "speakText text outcome sv =
     (let sv0 = stopSpeaking_service sv
      in case outcome of
           TtsFetchRejected e \<Rightarrow> (Some e, [(''TTS error:'', e)], sv0)
         | TtsNotOk statusText \<Rightarrow>
             (Some (Error (''TTS failed: '' @ statusText)),
              [(''TTS error:'', Error (''TTS failed: '' @ statusText))], sv0)
         | TtsBlobRejected e \<Rightarrow> (Some e, [(''TTS error:'', e)], sv0)
         | TtsPlayRejected b e \<Rightarrow>
             (Some e, [],
              sv0\<lparr>elements := elements sv0 @ [new_Audio b],
                  currentAudio := Some (length (elements sv0))\<rparr>)
         | TtsPlaying b \<Rightarrow>
             (None, [],
              sv0\<lparr>elements := elements sv0 @ [(new_Audio b)\<lparr>paused := False\<rparr>],
                  currentAudio := Some (length (elements sv0))\<rparr>))"

text \<open>
  The two events that settle the pending promise, for the element at position \<open>i\<close>:
  \<open>onended\<close> resolves it, \<open>onerror\<close> rejects it with the event.  An element that has
  ended or failed no longer plays.
\<close>

definition speakText_onended :: "nat \<Rightarrow> SpeechService \<Rightarrow> js_error option \<times> SpeechService" where
  "speakText_onended i sv =
     (None,
      (if i < length (elements sv)
       then sv\<lparr>elements := (elements sv)[i := (elements sv ! i)\<lparr>paused := True\<rparr>]\<rparr>
       else sv)\<lparr>currentAudio := None\<rparr>)"

definition speakText_onerror ::
  "nat \<Rightarrow> js_error \<Rightarrow> SpeechService \<Rightarrow> js_error option \<times> SpeechService"
where
  "speakText_onerror i e sv =
     (Some e,
      (if i < length (elements sv)
       then sv\<lparr>elements := (elements sv)[i := (elements sv ! i)\<lparr>paused := True\<rparr>]\<rparr>
       else sv)\<lparr>currentAudio := None\<rparr>)"


section \<open>App.tsx\<close>

text \<open>
  \<open>ChatMessage\<close> of types.ts: role and content with an id and a timestamp.  Both come
  from \<open>Date.now()\<close>, read here as the one number \<open>now\<close>.
\<close>

record AppMessage = ChatMessage +
  msg_id :: string
  timestamp :: nat

record AppState =
  messages :: "AppMessage list"
  input :: string
  isThinking :: bool
  thinkingMessage :: string
  sessionId :: "string option"
  isSpeechEnabled :: bool
  isVoiceActive :: bool

definition App_initial :: AppState where
  "App_initial =
     \<lparr>messages = [], input = [], isThinking = False, thinkingMessage = ''Thinking...'',
      sessionId = None, isSpeechEnabled = True, isVoiceActive = False\<rparr>"

text \<open>What the suspended \<open>handleSend\<close> reads from its render after the \<open>await\<close>.\<close>

record HandleSendFrame =
  f_isSpeechEnabled :: bool
  f_isVoiceActive :: bool

definition handleSend_begin ::
  "string \<Rightarrow> nat \<Rightarrow> string \<Rightarrow> AppState \<Rightarrow> AppState \<times> (FetchCall \<times> HandleSendFrame) option"
where
  "handleSend_begin BACKEND_URL now text s =
     (if trim text = [] then (s, None)
      else
        let userMsg = \<lparr>role = User, content = text, msg_id = toString now, timestamp = now\<rparr>;
            s1 = s\<lparr>messages := messages s @ [userMsg], input := [],
                   thinkingMessage := ''Agent is coordinating...'', isThinking := True\<rparr>;
            chatHistory = map (\<lambda>m. \<lparr>role = role m, content = content m\<rparr>) (messages s)
        in (s1,
            Some (chatWithAgent_fetch BACKEND_URL text chatHistory
                    (case sessionId s of
                       None \<Rightarrow> None
                     | Some sid \<Rightarrow> if sid = [] then None else Some sid)
                    None,
                  \<lparr>f_isSpeechEnabled = isSpeechEnabled s, f_isVoiceActive = isVoiceActive s\<rparr>)))"

text \<open>
  \<open>handleSend\<close> from the answer on.  \<open>speak\<close> is the error with which the awaited
  \<open>speakText\<close> of services/elevenlabs.ts rejects, if it does; a rejection inside the \<open>try\<close>
  reaches the same \<open>catch\<close> as a failed send.
\<close>

definition handleSend_resume ::
  "HandleSendFrame \<Rightarrow> fetch_outcome \<Rightarrow> js_error option \<Rightarrow> nat \<Rightarrow> AppState \<Rightarrow> AppState"
where
  "handleSend_resume f outcome speak now s =
     (let connection_error =
            \<lparr>role = Assistant, content = ''Connection error with Agent.'',
             msg_id = toString now, timestamp = now\<rparr>
      in case chatWithAgent_result outcome of
           Inr agentResponse \<Rightarrow>
             let s1 = (if r_session_id agentResponse \<noteq> []
                       then s\<lparr>sessionId := Some (r_session_id agentResponse)\<rparr> else s);
                 s2 = s1\<lparr>messages := messages s1
                           @ [\<lparr>role = Assistant, content = r_text agentResponse,
                               msg_id = toString now, timestamp = now\<rparr>]\<rparr>;
                 s3 = (if f_isSpeechEnabled f \<and> \<not> f_isVoiceActive f
                       then (case speak of
                               None \<Rightarrow> s2
                             | Some err \<Rightarrow> s2\<lparr>messages := messages s2 @ [connection_error]\<rparr>)
                       else s2)
             in s3\<lparr>isThinking := False\<rparr>
         | Inl err \<Rightarrow>
             s\<lparr>messages := messages s @ [connection_error], isThinking := False\<rparr>)"

text \<open>
  The App surface with the requests that have been issued and not yet answered.  A submit
  runs \<open>handleSend\<close> up to its \<open>await\<close>; an answer to the pending request at position
  \<open>i\<close> lets that \<open>handleSend\<close> continue.
\<close>

record AppWorld =
  app :: AppState
  app_inflight :: "(FetchCall \<times> HandleSendFrame) list"

definition App_submit :: "string \<Rightarrow> nat \<Rightarrow> string \<Rightarrow> AppWorld \<Rightarrow> AppWorld" where
  "App_submit BACKEND_URL now text w =
     (case handleSend_begin BACKEND_URL now text (app w) of
        (s, None) \<Rightarrow> w\<lparr>app := s\<rparr>
      | (s, Some p) \<Rightarrow> \<lparr>app = s, app_inflight = app_inflight w @ [p]\<rparr>)"

definition App_answer ::
  "nat \<Rightarrow> fetch_outcome \<Rightarrow> js_error option \<Rightarrow> nat \<Rightarrow> AppWorld \<Rightarrow> AppWorld"
where
  "App_answer i outcome speak now w =
     (if i < length (app_inflight w)
      then \<lparr>app = handleSend_resume (snd (app_inflight w ! i)) outcome speak now (app w),
            app_inflight = take i (app_inflight w) @ drop (Suc i) (app_inflight w)\<rparr>
      else w)"


section \<open>Notions used in the statements\<close>

text \<open>A synthesis that does not end with a clip playing.\<close>

definition tts_failed :: "tts_outcome \<Rightarrow> bool" where
  "tts_failed outcome = (case outcome of TtsPlaying b \<Rightarrow> False | _ \<Rightarrow> True)"

text \<open>
  The identifier in force after a list of replies, starting from \<open>sid\<close>: the last
  non-empty one.
\<close>

definition adopt :: "string option \<Rightarrow> ChatResponse list \<Rightarrow> string option" where
  "adopt sid ps =
     foldl (\<lambda>sid p. if r_session_id p \<noteq> [] then Some (r_session_id p) else sid) sid ps"

text \<open>A list of typed texts with their replies, each delivered with status 200.\<close>

definition success :: "ChatResponse \<Rightarrow> fetch_outcome" where
  "success p = Responded 200 ''OK'' p"

definition answered :: "(string \<times> ChatResponse) list \<Rightarrow> (string \<times> fetch_outcome) list" where
  "answered ts = map (\<lambda>(text, payload). (text, success payload)) ts"

definition trimmed :: "(string \<times> ChatResponse) list \<Rightarrow> (string \<times> ChatResponse) list" where
  "trimmed ts = map (\<lambda>(text, payload). (trim text, payload)) ts"

text \<open>The failure is a response that is not ok; the failure is a rejected \<open>play()\<close>.\<close>

definition tts_not_ok :: "tts_outcome \<Rightarrow> bool" where
  "tts_not_ok outcome = (case outcome of TtsNotOk statusText \<Rightarrow> True | _ \<Rightarrow> False)"

definition tts_play_rejected :: "tts_outcome \<Rightarrow> bool" where
  "tts_play_rejected outcome = (case outcome of TtsPlayRejected b e \<Rightarrow> True | _ \<Rightarrow> False)"

text \<open>A network that gives the same answer to every call.\<close>

definition answering :: "fetch_outcome \<Rightarrow> FetchCall \<Rightarrow> fetch_outcome" where
  "answering outcome call = outcome"

text \<open>Of the elements of the module, only the one \<open>currentAudio\<close> points to may be playing.\<close>

definition service_inv :: "SpeechService \<Rightarrow> bool" where
  "service_inv sv =
     (\<forall>i < length (elements sv). \<not> paused (elements sv ! i) \<longrightarrow> currentAudio sv = Some i)"


text \<open>The text surface is loading exactly while its one request is pending.\<close>

definition Chat_inv :: "ChatWorld \<Rightarrow> bool" where
  "Chat_inv w =
     (length (chat_inflight w) \<le> 1 \<and> (isLoading (chat w) = (chat_inflight w \<noteq> [])))"


section \<open>The text surface: what its requests carry, and how many are pending\<close>

lemma chat_turn_success:
  assumes "\<not> isLoading s" and "trim text \<noteq> []"
  shows "chat_turn B en s (text, success p) =
     (s\<lparr>inputText := [], ChatState.error := None,
        ChatState.messages := ChatState.messages s
          @ [\<lparr>role = User, content = trim text\<rparr>, \<lparr>role = Assistant, content = r_text p\<rparr>],
        ChatState.sessionId := (if r_session_id p \<noteq> [] then Some (r_session_id p)
                                else ChatState.sessionId s)\<rparr>,
      [chatWithAgent_fetch B (trim text) (ChatState.messages s) (ChatState.sessionId s)
         (Some ''text'')])"
  using assms
  by (simp add: chat_turn_def sendMessage_begin_def sendMessage_resume_def success_def
        chatWithAgent_result_def ok_def Let_def)

lemma committed_Cons:
  "committed ((text, p) # ts) =
     [\<lparr>role = User, content = text\<rparr>, \<lparr>role = Assistant, content = r_text p\<rparr>] @ committed ts"
  by (simp add: committed_def)

lemma chat_run_calls:
  assumes "\<not> isLoading s" and "\<forall>t\<in>set ts. trim (fst t) \<noteq> []" and "n < length ts"
  shows "snd (chat_run B en s (answered ts)) ! n =
     chatWithAgent_fetch B (trim (fst (ts ! n)))
       (ChatState.messages s @ committed (trimmed (take n ts)))
       (adopt (ChatState.sessionId s) (map snd (take n ts)))
       (Some ''text'')"
  using assms
proof (induction ts arbitrary: s n)
  case Nil
  then show ?case by simp
next
  case (Cons t ts)
  obtain inp p where t: "t = (inp, p)" by (cases t)
  from Cons.prems t have nb: "trim inp \<noteq> []" by simp
  let ?s1 = "s\<lparr>inputText := [], ChatState.error := None,
        ChatState.messages := ChatState.messages s
          @ [\<lparr>role = User, content = trim inp\<rparr>, \<lparr>role = Assistant, content = r_text p\<rparr>],
        ChatState.sessionId := (if r_session_id p \<noteq> [] then Some (r_session_id p)
                                else ChatState.sessionId s)\<rparr>"
  have turn: "chat_turn B en s (inp, success p) =
     (?s1, [chatWithAgent_fetch B (trim inp) (ChatState.messages s) (ChatState.sessionId s)
         (Some ''text'')])"
    by (rule chat_turn_success [OF Cons.prems(1) nb])
  obtain s2 calls2 where rest: "chat_run B en ?s1 (answered ts) = (s2, calls2)"
    by (cases "chat_run B en ?s1 (answered ts)")
  have run: "snd (chat_run B en s (answered (t # ts))) =
     chatWithAgent_fetch B (trim inp) (ChatState.messages s) (ChatState.sessionId s) (Some ''text'')
       # snd (chat_run B en ?s1 (answered ts))"
    by (simp add: answered_def t turn rest [unfolded answered_def])
  show ?case
  proof (cases n)
    case 0
    then show ?thesis using run t by (simp add: committed_def trimmed_def adopt_def)
  next
    case (Suc m)
    have s1: "\<not> isLoading ?s1"
      using Cons.prems(1) by simp
    have m: "m < length ts" using Cons.prems(3) Suc by simp
    have all: "\<forall>t\<in>set ts. trim (fst t) \<noteq> []" using Cons.prems(2) by simp
    have IH: "snd (chat_run B en ?s1 (answered ts)) ! m =
       chatWithAgent_fetch B (trim (fst (ts ! m)))
         (ChatState.messages ?s1 @ committed (trimmed (take m ts)))
         (adopt (ChatState.sessionId ?s1) (map snd (take m ts)))
         (Some ''text'')"
      by (rule Cons.IH [OF s1 all m])
    have msgs: "ChatState.messages ?s1 = ChatState.messages s
          @ [\<lparr>role = User, content = trim inp\<rparr>, \<lparr>role = Assistant, content = r_text p\<rparr>]"
      by simp
    have sid: "ChatState.sessionId ?s1 =
        (if r_session_id p \<noteq> [] then Some (r_session_id p) else ChatState.sessionId s)"
      by simp
    show ?thesis
      using run IH Suc t msgs sid
      by (simp add: trimmed_def committed_Cons adopt_def)
  qed
qed

lemma Chat_step_inv: "Chat_inv w \<Longrightarrow> Chat_inv (Chat_step B en w ev)"
  by (cases ev; cases "chat_inflight w")
     (auto simp: Chat_inv_def Chat_step_def sendMessage_begin_def sendMessage_resume_def
        clearChat_def Let_def split: sum.splits)

lemma Chat_run_inv: "Chat_inv w \<Longrightarrow> Chat_inv (foldl (Chat_step B en) w evs)"
  by (induction evs arbitrary: w) (simp_all add: Chat_step_inv)

lemma Chat_at_most_one_in_flight:
  "length (chat_inflight (foldl (Chat_step B en) Chat_world_initial evs)) \<le> 1"
proof -
  have "Chat_inv Chat_world_initial"
    by (simp add: Chat_inv_def Chat_world_initial_def Chat_initial_def)
  then have "Chat_inv (foldl (Chat_step B en) Chat_world_initial evs)"
    by (rule Chat_run_inv)
  then show ?thesis by (simp add: Chat_inv_def)
qed


section \<open>The voice surface: what its requests carry\<close>

text \<open>
  Every request of the voice surface is built by the \<open>handleUserSpeech\<close> of the first
  render: it has an empty history and no session identifier, whatever has been committed.
\<close>

lemma voice_turn_calls:
  "c \<in> set (snd (voice_turn B en s t)) \<Longrightarrow> b_history (body c) = [] \<and> b_session_id (body c) = None"
  by (cases t)
     (auto simp: voice_turn_def recognition_onresult_def handleUserSpeech_begin_def mount_scope_def
        render_scope_def VoiceAssistant_initial_def chatWithAgent_fetch_def Let_def
        split: prod.splits option.splits if_splits)

lemma voice_run_calls:
  "c \<in> set (snd (voice_run B en s ts)) \<Longrightarrow> b_history (body c) = [] \<and> b_session_id (body c) = None"
proof (induction ts arbitrary: s)
  case Nil
  then show ?case by simp
next
  case (Cons t ts)
  obtain s1 calls where turn: "voice_turn B en s t = (s1, calls)"
    by (cases "voice_turn B en s t")
  obtain s2 calls2 where run: "voice_run B en s1 ts = (s2, calls2)"
    by (cases "voice_run B en s1 ts")
  from Cons.prems turn run have "c \<in> set calls \<or> c \<in> set calls2" by simp
  then show ?case
  proof
    assume "c \<in> set calls"
    then have "c \<in> set (snd (voice_turn B en s t))" using turn by simp
    then show ?thesis by (rule voice_turn_calls)
  next
    assume "c \<in> set calls2"
    then have "c \<in> set (snd (voice_run B en s1 ts))" using run by simp
    then show ?thesis by (rule Cons.IH)
  qed
qed


section \<open>The speech service: one playback at a time\<close>

text \<open>
  \<open>speakText\<close> stops the playback that \<open>currentAudio\<close> points to before it starts the new
  clip, so a call that starts a clip leaves exactly that clip playing.
\<close>

lemma stopSpeaking_service_silent:
  assumes "service_inv sv"
  shows "\<forall>a \<in> set (elements (stopSpeaking_service sv)). paused a"
proof (cases "currentAudio sv")
  case None
  have "\<forall>i < length (elements sv). paused (elements sv ! i)"
    using assms None by (auto simp: service_inv_def)
  then have "\<forall>a \<in> set (elements sv). paused a"
    by (auto simp: in_set_conv_nth)
  then show ?thesis using None by (simp add: stopSpeaking_service_def)
next
  case (Some i)
  have others: "\<forall>j < length (elements sv). j \<noteq> i \<longrightarrow> paused (elements sv ! j)"
    using assms Some by (auto simp: service_inv_def)
  show ?thesis
  proof (cases "i < length (elements sv)")
    case True
    have "\<forall>j < length (elements sv).
        paused ((elements sv)[i := (elements sv ! i)\<lparr>paused := True, currentTime := 0\<rparr>] ! j)"
      using others True by (auto simp: nth_list_update)
    then have "\<forall>a \<in> set ((elements sv)[i := (elements sv ! i)\<lparr>paused := True, currentTime := 0\<rparr>]).
        paused a"
      by (auto simp: in_set_conv_nth)
    then show ?thesis using Some True by (simp add: stopSpeaking_service_def)
  next
    case False
    have "\<forall>j < length (elements sv). paused (elements sv ! j)"
      using others False by auto
    then have "\<forall>a \<in> set (elements sv). paused a"
      by (auto simp: in_set_conv_nth)
    then show ?thesis using Some False by (simp add: stopSpeaking_service_def)
  qed
qed

lemma speakText_one_active:
  assumes "service_inv sv"
  shows "active (elements (snd (snd (speakText text (TtsPlaying b) sv)))) = 1"
proof -
  have "\<forall>a \<in> set (elements (stopSpeaking_service sv)). paused a"
    using assms by (rule stopSpeaking_service_silent)
  then have "filter (\<lambda>a. \<not> paused a) (elements (stopSpeaking_service sv)) = []"
    by (simp add: filter_empty_conv)
  then show ?thesis
    by (simp add: speakText_def active_def new_Audio_def Let_def)
qed

lemma speakText_inv:
  assumes "service_inv sv"
  shows "service_inv (snd (snd (speakText text outcome sv)))"
proof -
  have silent: "\<forall>a \<in> set (elements (stopSpeaking_service sv)). paused a"
    using assms by (rule stopSpeaking_service_silent)
  then have nth: "\<forall>i < length (elements (stopSpeaking_service sv)).
      paused (elements (stopSpeaking_service sv) ! i)"
    by simp
  show ?thesis
    using nth
    by (cases outcome)
       (auto simp: speakText_def service_inv_def new_Audio_def Let_def nth_append)
qed

lemma speakText_twice_one_active:
  "active (elements (snd (snd (speakText ''Rest'' (TtsPlaying ''clip2'')
     (snd (snd (speakText ''Sorry to hear that'' (TtsPlaying ''clip1'') SpeechService_initial)))))))
   = 1"
proof -
  have "service_inv SpeechService_initial"
    by (simp add: service_inv_def SpeechService_initial_def)
  then have "service_inv
      (snd (snd (speakText ''Sorry to hear that'' (TtsPlaying ''clip1'') SpeechService_initial)))"
    by (rule speakText_inv)
  then show ?thesis by (rule speakText_one_active)
qed


section \<open>The claims\<close>

text \<open>
  C1.  On a conversational surface, the history sent with the request of turn N+1 is the
  ordered list of the committed turns 1..N, without the user message in flight.

  The text surface does this (lemma \<open>chat_run_calls\<close>).  The voice surface does not: after
  a first successful turn has committed its two messages, the request of the second turn
  carries an empty history, and the second turn then overwrites the first in \<open>history\<close>.
\<close>

theorem voice_history_not_sent:
  "history (fst (voice_run ''http://localhost:8000'' True (VoiceAssistant_mount True)
      [(''feeling tired today'',
        Responded 200 ''OK'' \<lparr>r_text = ''Sorry to hear that'', r_session_id = ''abc123''\<rparr>,
        TtsPlaying ''clip1'')]))
   = [\<lparr>role = User, content = ''feeling tired today''\<rparr>,
      \<lparr>role = Assistant, content = ''Sorry to hear that''\<rparr>]
   \<and> map (\<lambda>c. b_history (body c))
       (snd (voice_run ''http://localhost:8000'' True (VoiceAssistant_mount True)
          [(''feeling tired today'',
            Responded 200 ''OK'' \<lparr>r_text = ''Sorry to hear that'', r_session_id = ''abc123''\<rparr>,
            TtsPlaying ''clip1''),
           (''what helps'',
            Responded 200 ''OK'' \<lparr>r_text = ''Rest'', r_session_id = ''abc123''\<rparr>,
            TtsPlaying ''clip2'')]))
   = [[], []]
   \<and> history (fst (voice_run ''http://localhost:8000'' True (VoiceAssistant_mount True)
          [(''feeling tired today'',
            Responded 200 ''OK'' \<lparr>r_text = ''Sorry to hear that'', r_session_id = ''abc123''\<rparr>,
            TtsPlaying ''clip1''),
           (''what helps'',
            Responded 200 ''OK'' \<lparr>r_text = ''Rest'', r_session_id = ''abc123''\<rparr>,
            TtsPlaying ''clip2'')]))
   = [\<lparr>role = User, content = ''what helps''\<rparr>, \<lparr>role = Assistant, content = ''Rest''\<rparr>]"
  by (simp add: voice_turn_def recognition_onresult_def recognition_onend_def startListening_def
        VoiceAssistant_mount_def VoiceAssistant_initial_def mount_scope_def render_scope_def
        handleUserSpeech_begin_def handleUserSpeech_resume_def chatWithAgent_result_def ok_def
        chatWithAgent_fetch_def playTTS_def playTTS_try_def new_Audio_def
        trim_def isWhiteSpace_def Let_def)

text \<open>
  C2.  Once a reply has returned a non-empty session identifier, every later request
  carries the most recently returned one, until an explicit clear.

  The voice surface adopts the identifier \<open>abc123\<close> of its first reply into its state, and
  its second request still carries none.
\<close>

theorem voice_session_id_not_sent:
  "VoiceAssistantState.sessionId
     (fst (voice_run ''http://localhost:8000'' True (VoiceAssistant_mount True)
        [(''feeling tired today'',
          Responded 200 ''OK'' \<lparr>r_text = ''Sorry to hear that'', r_session_id = ''abc123''\<rparr>,
          TtsPlaying ''clip1'')]))
   = Some ''abc123''
   \<and> map (\<lambda>c. b_session_id (body c))
       (snd (voice_run ''http://localhost:8000'' True (VoiceAssistant_mount True)
          [(''feeling tired today'',
            Responded 200 ''OK'' \<lparr>r_text = ''Sorry to hear that'', r_session_id = ''abc123''\<rparr>,
            TtsPlaying ''clip1''),
           (''what helps'',
            Responded 200 ''OK'' \<lparr>r_text = ''Rest'', r_session_id = ''abc123''\<rparr>,
            TtsPlaying ''clip2'')]))
   = [None, None]"
  by (simp add: voice_turn_def recognition_onresult_def recognition_onend_def startListening_def
        VoiceAssistant_mount_def VoiceAssistant_initial_def mount_scope_def render_scope_def
        handleUserSpeech_begin_def handleUserSpeech_resume_def chatWithAgent_result_def ok_def
        chatWithAgent_fetch_def playTTS_def playTTS_try_def new_Audio_def
        trim_def isWhiteSpace_def Let_def)

text \<open>
  C3, as the code has it.  When a chat send fails (the fetch rejects, or the status is not
  2xx), the session identifier is unchanged and the surface is idle again.  The text
  surface puts back the transcript of before the send, so the user's message is removed,
  and sets an error string; the App surface keeps the user's message and appends an
  assistant turn "Connection error with Agent."; the voice surface leaves its history as
  it is and sets an error string.
\<close>

theorem failed_send_by_surface:
  assumes "chatWithAgent_result outcome = Inl e"
  shows
  "sendMessage_resume en f outcome s =
     (s\<lparr>ChatState.error := Some ''Failed to send message. Please try again.'',
        ChatState.messages := f_messages f, isLoading := False\<rparr>, None)
   \<and> (\<not> isLoading s \<and> trim text \<noteq> [] \<longrightarrow>
        fst (chat_turn B en s (text, outcome)) =
          s\<lparr>inputText := [], isLoading := False,
            ChatState.error := Some ''Failed to send message. Please try again.''\<rparr>)
   \<and> handleSend_resume hf outcome speak now a =
       a\<lparr>AppState.messages := AppState.messages a
            @ [\<lparr>role = Assistant, content = ''Connection error with Agent.'',
                msg_id = toString now, timestamp = now\<rparr>],
         isThinking := False\<rparr>
   \<and> handleUserSpeech_resume scope text outcome tts v =
       (v\<lparr>VoiceAssistantState.error := Some ''Failed to get response. Please try again.'',
          voiceState := idle\<rparr>, [])"
  using assms
  by (simp add: sendMessage_resume_def handleSend_resume_def handleUserSpeech_resume_def
        chat_turn_def sendMessage_begin_def Let_def)

theorem failed_send_by_surface_witness:
  "chatWithAgent_result (Responded 500 ''Internal Server Error'' \<lparr>r_text = [], r_session_id = []\<rparr>)
     = Inl (Error ''Chat failed: Internal Server Error'')
   \<and> fst (chat_turn ''http://localhost:8000'' False Chat_initial
        (''hi'', Responded 500 ''Internal Server Error'' \<lparr>r_text = [], r_session_id = []\<rparr>))
     = Chat_initial\<lparr>inputText := [], isLoading := False,
         ChatState.error := Some ''Failed to send message. Please try again.''\<rparr>"
proof -
  have fails:
    "chatWithAgent_result (Responded 500 ''Internal Server Error'' \<lparr>r_text = [], r_session_id = []\<rparr>)
       = Inl (Error ''Chat failed: Internal Server Error'')"
    by (simp add: chatWithAgent_result_def ok_def)
  have ready: "\<not> isLoading Chat_initial \<and> trim ''hi'' \<noteq> []"
    by (simp add: Chat_initial_def trim_def isWhiteSpace_def)
  have "\<not> isLoading Chat_initial \<and> trim ''hi'' \<noteq> [] \<longrightarrow>
      fst (chat_turn ''http://localhost:8000'' False Chat_initial
        (''hi'', Responded 500 ''Internal Server Error'' \<lparr>r_text = [], r_session_id = []\<rparr>))
      = Chat_initial\<lparr>inputText := [], isLoading := False,
          ChatState.error := Some ''Failed to send message. Please try again.''\<rparr>"
    using failed_send_by_surface [OF fails, of False _ Chat_initial "''hi''"
        "''http://localhost:8000''"]
    by blast
  with ready fails show ?thesis by blast
qed

text \<open>
  C3, as stated, fails: after a failed send from the empty conversation the text surface
  holds no message at all, and the App surface has committed an assistant turn.
\<close>

theorem failed_send_not_retained:
  "ChatState.messages (fst (chat_turn ''http://localhost:8000'' False Chat_initial
      (''hi'', Rejected (Error ''Failed to fetch'')))) = []
   \<and> map role (AppState.messages (app
        (App_answer 0 (Rejected (Error ''Failed to fetch'')) None 2
           (App_submit ''http://localhost:8000'' 1 ''hi'' \<lparr>app = App_initial, app_inflight = []\<rparr>))))
      = [User, Assistant]"
  by (simp add: chat_turn_def sendMessage_begin_def sendMessage_resume_def Chat_initial_def
        chatWithAgent_result_def chatWithAgent_fetch_def trim_def isWhiteSpace_def Let_def
        App_answer_def App_submit_def handleSend_begin_def handleSend_resume_def App_initial_def)

text \<open>
  C4.  At most one playback is active: speaking stops the playback that is active before
  it starts the new one.

  \<open>speakText\<close> of the speech service does so (lemma \<open>speakText_one_active\<close>).  \<open>playTTS\<close>
  does not, on the voice surface or on the text surface: after two voice turns in
  succession, each with a successful synthesis, both clips are playing and \<open>audioRef\<close>
  points to the second only; two calls of \<open>playTTS\<close> of either surface leave two
  playbacks active.
\<close>

theorem two_playbacks_active:
  "active (VoiceAssistantState.audios
     (fst (voice_run ''http://localhost:8000'' True (VoiceAssistant_mount True)
        [(''feeling tired today'',
          Responded 200 ''OK'' \<lparr>r_text = ''Sorry to hear that'', r_session_id = ''abc123''\<rparr>,
          TtsPlaying ''clip1''),
         (''what helps'',
          Responded 200 ''OK'' \<lparr>r_text = ''Rest'', r_session_id = ''abc123''\<rparr>,
          TtsPlaying ''clip2'')]))) = 2
   \<and> audioRef
     (fst (voice_run ''http://localhost:8000'' True (VoiceAssistant_mount True)
        [(''feeling tired today'',
          Responded 200 ''OK'' \<lparr>r_text = ''Sorry to hear that'', r_session_id = ''abc123''\<rparr>,
          TtsPlaying ''clip1''),
         (''what helps'',
          Responded 200 ''OK'' \<lparr>r_text = ''Rest'', r_session_id = ''abc123''\<rparr>,
          TtsPlaying ''clip2'')])) = Some 1
   \<and> active (VoiceAssistantState.audios
     (snd (snd (playTTS ''Rest'' (TtsPlaying ''clip2'')
        (snd (snd (playTTS ''Sorry to hear that'' (TtsPlaying ''clip1'')
           (VoiceAssistant_mount True)))))))) = 2
   \<and> active (ChatState.audios
     (snd (snd (Chat_playTTS ''Rest'' (TtsPlaying ''clip2'')
        (snd (snd (Chat_playTTS ''Sorry to hear that'' (TtsPlaying ''clip1'') Chat_initial)))))))
     = 2"
  by (simp add: voice_turn_def recognition_onresult_def recognition_onend_def startListening_def
        VoiceAssistant_mount_def VoiceAssistant_initial_def mount_scope_def render_scope_def
        handleUserSpeech_begin_def handleUserSpeech_resume_def chatWithAgent_result_def ok_def
        chatWithAgent_fetch_def playTTS_def playTTS_try_def new_Audio_def active_def
        Chat_playTTS_def Chat_playTTS_try_def Chat_initial_def
        trim_def isWhiteSpace_def Let_def)

text \<open>
  C5, as the code has it.  Clearing, in any state, empties the transcript, makes the
  session identifier absent and removes the error (on the voice surface also the shown
  transcript and response), and clearing twice is clearing once.  It leaves everything
  else as it is: the loading flag of the text surface, and the voice state, the
  recognition and the audio elements of the voice surface.
\<close>

theorem clear_resets_conversation_only:
  "ChatState.messages (clearChat s) = [] \<and> ChatState.sessionId (clearChat s) = None
   \<and> ChatState.error (clearChat s) = None
   \<and> clearChat (clearChat s) = clearChat s
   \<and> isLoading (clearChat s) = isLoading s
   \<and> ChatState.audios (clearChat s) = ChatState.audios s
   \<and> history (clearConversation v) = []
   \<and> VoiceAssistantState.sessionId (clearConversation v) = None
   \<and> transcript (clearConversation v) = [] \<and> response (clearConversation v) = []
   \<and> VoiceAssistantState.error (clearConversation v) = None
   \<and> clearConversation (clearConversation v) = clearConversation v
   \<and> voiceState (clearConversation v) = voiceState v
   \<and> recognitionRef (clearConversation v) = recognitionRef v
   \<and> audioRef (clearConversation v) = audioRef v
   \<and> VoiceAssistantState.audios (clearConversation v) = VoiceAssistantState.audios v"
  by (simp add: clearChat_def clearConversation_def)

theorem clear_resets_conversation_only_witness:
  "history (clearConversation
     (VoiceAssistant_initial
        \<lparr>voiceState := speaking, history := [\<lparr>role = User, content = ''hi''\<rparr>],
         VoiceAssistantState.sessionId := Some ''abc123''\<rparr>)) = []
   \<and> VoiceAssistantState.sessionId (clearConversation
     (VoiceAssistant_initial
        \<lparr>voiceState := speaking, history := [\<lparr>role = User, content = ''hi''\<rparr>],
         VoiceAssistantState.sessionId := Some ''abc123''\<rparr>)) = None
   \<and> voiceState (clearConversation
     (VoiceAssistant_initial
        \<lparr>voiceState := speaking, history := [\<lparr>role = User, content = ''hi''\<rparr>],
         VoiceAssistantState.sessionId := Some ''abc123''\<rparr>)) = speaking"
  using clear_resets_conversation_only
    [of Chat_initial
        "VoiceAssistant_initial
           \<lparr>voiceState := speaking, history := [\<lparr>role = User, content = ''hi''\<rparr>],
            VoiceAssistantState.sessionId := Some ''abc123''\<rparr>"]
  by simp

text \<open>
  C5, as stated, fails: after one voice turn whose reply is being played, the user starts
  a capture and presses Clear; the surface is still listening, the recognition is still
  started and the clip is still playing.
\<close>

theorem clear_does_not_force_idle:
  "voiceState (clearConversation (startListening (fst (voice_turn ''http://localhost:8000'' True
       (VoiceAssistant_mount True)
       (''feeling tired today'',
        Responded 200 ''OK'' \<lparr>r_text = ''Sorry to hear that'', r_session_id = ''abc123''\<rparr>,
        TtsPlaying ''clip1''))))) = listening
   \<and> recognitionRef (clearConversation (startListening (fst (voice_turn ''http://localhost:8000'' True
       (VoiceAssistant_mount True)
       (''feeling tired today'',
        Responded 200 ''OK'' \<lparr>r_text = ''Sorry to hear that'', r_session_id = ''abc123''\<rparr>,
        TtsPlaying ''clip1''))))) = Some True
   \<and> active (VoiceAssistantState.audios (clearConversation (startListening
       (fst (voice_turn ''http://localhost:8000'' True
          (VoiceAssistant_mount True)
          (''feeling tired today'',
           Responded 200 ''OK'' \<lparr>r_text = ''Sorry to hear that'', r_session_id = ''abc123''\<rparr>,
           TtsPlaying ''clip1'')))))) = 1"
  by (simp add: voice_turn_def recognition_onresult_def recognition_onend_def startListening_def
        VoiceAssistant_mount_def VoiceAssistant_initial_def mount_scope_def render_scope_def
        handleUserSpeech_begin_def handleUserSpeech_resume_def chatWithAgent_result_def ok_def
        chatWithAgent_fetch_def playTTS_def playTTS_try_def new_Audio_def active_def
        clearConversation_def trim_def isWhiteSpace_def Let_def)

text \<open>
  C6.  On a conversational surface at most one chat request is in flight: a submit while
  a request is pending issues no second request.

  The text surface keeps this (lemma \<open>Chat_at_most_one_in_flight\<close>).  The App surface does
  not: two submits, the second before any answer, leave two requests pending.
\<close>

theorem app_two_requests_in_flight:
  "length (app_inflight
     (App_submit ''http://localhost:8000'' 2 ''b''
        (App_submit ''http://localhost:8000'' 1 ''a'' \<lparr>app = App_initial, app_inflight = []\<rparr>)))
   = 2"
  by (simp add: App_submit_def handleSend_begin_def App_initial_def trim_def isWhiteSpace_def
        Let_def)

text \<open>
  C7.  A submission whose text is empty after trimming is rejected on the spot, on each
  of the three surfaces: no request is issued, and transcript, session identifier and
  error are left as they are (the text surface and the App surface change nothing at all;
  the voice surface only sets its state to idle).
\<close>

theorem empty_submission_rejected:
  "trim text = [] \<Longrightarrow> inputText s = text \<Longrightarrow>
     sendMessage_begin B s = (s, None)
   \<and> handleSend_begin B now text a = (a, None)
   \<and> handleUserSpeech_begin B scope text v = (v\<lparr>voiceState := idle\<rparr>, [], None)"
  by (simp add: sendMessage_begin_def handleSend_begin_def handleUserSpeech_begin_def)

theorem empty_submission_rejected_witness:
  "trim [CHR 0x20, CHR 0x09, CHR 0x20] = []
   \<and> sendMessage_begin ''http://localhost:8000''
        (Chat_initial\<lparr>inputText := [CHR 0x20, CHR 0x09, CHR 0x20]\<rparr>)
      = (Chat_initial\<lparr>inputText := [CHR 0x20, CHR 0x09, CHR 0x20]\<rparr>, None)
   \<and> handleSend_begin ''http://localhost:8000'' 1 [CHR 0x20, CHR 0x09, CHR 0x20] App_initial
      = (App_initial, None)"
proof -
  have blank: "trim [CHR 0x20, CHR 0x09, CHR 0x20] = []"
    by (simp add: trim_def isWhiteSpace_def)
  have inp: "inputText (Chat_initial\<lparr>inputText := [CHR 0x20, CHR 0x09, CHR 0x20]\<rparr>)
      = [CHR 0x20, CHR 0x09, CHR 0x20]"
    by simp
  show ?thesis
    using blank empty_submission_rejected [OF blank inp, of "''http://localhost:8000''" 1 App_initial]
    by simp
qed

text \<open>
  C8, as the code has it.  \<open>chatWithAgent\<close> issues exactly one call, a POST to the chat
  endpoint with the body message, history, session_id (absent when there is none) and
  inputType.  When the fetch rejects, the call throws that error.  When the status is
  outside 200..299, the call throws "Chat failed: " with the status text.  When the status
  is inside 200..299, the call returns the payload that the body parses to, and throws the
  error of \<open>response.json()\<close> when the body is empty or not JSON.
\<close>

theorem chatWithAgent_one_post:
  "fst (chatWithAgent B net msg h sid inputType) =
     [\<lparr>url = B @ ''/chat'', http_method = ''POST'', content_type = ''application/json'',
       body = \<lparr>b_message = msg, b_history = h, b_session_id = sid,
               b_inputType = (case inputType of None \<Rightarrow> ''Text'' | Some t \<Rightarrow> t)\<rparr>\<rparr>]
   \<and> (\<forall>status statusText payload.
         net (chatWithAgent_fetch B msg h sid inputType) = Responded status statusText payload \<longrightarrow>
         snd (chatWithAgent B net msg h sid inputType) =
           (if 200 \<le> status \<and> status \<le> 299 then Inr payload
            else Inl (Error (''Chat failed: '' @ statusText))))
   \<and> (\<forall>status statusText e.
         net (chatWithAgent_fetch B msg h sid inputType) = RespondedUnparsable status statusText e \<longrightarrow>
         snd (chatWithAgent B net msg h sid inputType) =
           (if 200 \<le> status \<and> status \<le> 299 then Inl e
            else Inl (Error (''Chat failed: '' @ statusText))))
   \<and> (\<forall>e. net (chatWithAgent_fetch B msg h sid inputType) = Rejected e \<longrightarrow>
         snd (chatWithAgent B net msg h sid inputType) = Inl e)"
  by (simp add: chatWithAgent_def chatWithAgent_fetch_def chatWithAgent_result_def ok_def Let_def)

theorem chatWithAgent_one_post_witness:
  "snd (chatWithAgent ''http://localhost:8000''
          (answering (Responded 503 ''Service Unavailable'' \<lparr>r_text = [], r_session_id = []\<rparr>))
          ''hello'' [] None (Some ''text''))
     = Inl (Error ''Chat failed: Service Unavailable'')
   \<and> snd (chatWithAgent ''http://localhost:8000''
          (answering (Responded 200 ''OK'' \<lparr>r_text = ''hi'', r_session_id = ''abc123''\<rparr>))
          ''hello'' [] None (Some ''text''))
     = Inr \<lparr>r_text = ''hi'', r_session_id = ''abc123''\<rparr>
   \<and> snd (chatWithAgent ''http://localhost:8000''
          (answering (RespondedUnparsable 502 ''Bad Gateway'' (Error ''Unexpected token <'')))
          ''hello'' [] None (Some ''text''))
     = Inl (Error ''Chat failed: Bad Gateway'')
   \<and> snd (chatWithAgent ''http://localhost:8000''
          (answering (Rejected (Error ''Failed to fetch'')))
          ''hello'' [] None (Some ''text''))
     = Inl (Error ''Failed to fetch'')
   \<and> length (fst (chatWithAgent ''http://localhost:8000''
          (answering (Responded 200 ''OK'' \<lparr>r_text = ''hi'', r_session_id = ''abc123''\<rparr>))
          ''hello'' [] None (Some ''text''))) = 1"
  using chatWithAgent_one_post
          [of "''http://localhost:8000''"
              "answering (Responded 503 ''Service Unavailable'' \<lparr>r_text = [], r_session_id = []\<rparr>)"
              "''hello''" "[]" None "Some ''text''"]
        chatWithAgent_one_post
          [of "''http://localhost:8000''"
              "answering (Responded 200 ''OK'' \<lparr>r_text = ''hi'', r_session_id = ''abc123''\<rparr>)"
              "''hello''" "[]" None "Some ''text''"]
        chatWithAgent_one_post
          [of "''http://localhost:8000''"
              "answering (RespondedUnparsable 502 ''Bad Gateway'' (Error ''Unexpected token <''))"
              "''hello''" "[]" None "Some ''text''"]
        chatWithAgent_one_post
          [of "''http://localhost:8000''"
              "answering (Rejected (Error ''Failed to fetch''))"
              "''hello''" "[]" None "Some ''text''"]
  by (simp add: answering_def)

text \<open>
  C8, as stated, fails: a response with the status 204 has an empty body, and the call
  throws the error of \<open>response.json()\<close> although the status is 2xx.
\<close>

theorem chatWithAgent_throws_on_2xx:
  "ok 204
   \<and> snd (chatWithAgent ''http://localhost:8000''
          (answering (RespondedUnparsable 204 ''No Content'' (Error ''Unexpected end of JSON input'')))
          ''hello'' [] None (Some ''text''))
     = Inl (Error ''Unexpected end of JSON input'')"
  by (simp add: chatWithAgent_def chatWithAgent_result_def answering_def ok_def Let_def)

text \<open>
  C9, as the code has it.  A synthesis that fails at any stage does not change the session
  identifier on any surface.  \<open>playTTS\<close> of the text surface and of the voice surface
  absorbs the failure: it returns without an error and leaves the transcript as it is, and
  no further playback is active.  The voice surface logs the failure and goes idle.  The
  text surface logs the failure, except that on a response that is not ok it returns
  without logging.  \<open>speakText\<close> does not absorb the failure: the call rejects to its
  caller, after logging unless it was \<open>play()\<close> that rejected.
\<close>

theorem tts_failure_by_function:
  "tts_failed outcome \<Longrightarrow>
     fst (Chat_playTTS text outcome s) = None
   \<and> (fst (snd (Chat_playTTS text outcome s)) = []) = tts_not_ok outcome
   \<and> ChatState.messages (snd (snd (Chat_playTTS text outcome s))) = ChatState.messages s
   \<and> ChatState.sessionId (snd (snd (Chat_playTTS text outcome s))) = ChatState.sessionId s
   \<and> ChatState.error (snd (snd (Chat_playTTS text outcome s))) = ChatState.error s
   \<and> active (ChatState.audios (snd (snd (Chat_playTTS text outcome s))))
       = active (ChatState.audios s)
   \<and> fst (playTTS text outcome v) = None
   \<and> fst (snd (playTTS text outcome v)) \<noteq> []
   \<and> history (snd (snd (playTTS text outcome v))) = history v
   \<and> VoiceAssistantState.sessionId (snd (snd (playTTS text outcome v)))
       = VoiceAssistantState.sessionId v
   \<and> active (VoiceAssistantState.audios (snd (snd (playTTS text outcome v))))
       = active (VoiceAssistantState.audios v)
   \<and> voiceState (snd (snd (playTTS text outcome v))) = idle
   \<and> fst (speakText text outcome sv) \<noteq> None
   \<and> (fst (snd (speakText text outcome sv)) = []) = tts_play_rejected outcome
   \<and> AppState.sessionId (handleSend_resume hf answer (fst (speakText text outcome sv)) now a)
       = AppState.sessionId (handleSend_resume hf answer None now a)"
  by (cases outcome)
     (simp_all add: tts_failed_def tts_not_ok_def tts_play_rejected_def
        Chat_playTTS_def Chat_playTTS_try_def playTTS_def playTTS_try_def speakText_def
        handleSend_resume_def active_def new_Audio_def Let_def split: sum.splits)

theorem tts_failure_by_function_witness:
  "tts_failed (TtsFetchRejected (Error ''Failed to fetch''))
   \<and> playTTS ''Rest'' (TtsFetchRejected (Error ''Failed to fetch''))
        (VoiceAssistant_initial
           \<lparr>voiceState := speaking, history := [\<lparr>role = User, content = ''hi''\<rparr>],
            VoiceAssistantState.sessionId := Some ''abc123''\<rparr>)
     = (None, [(''TTS error:'', Error ''Failed to fetch'')],
        VoiceAssistant_initial
           \<lparr>voiceState := idle, history := [\<lparr>role = User, content = ''hi''\<rparr>],
            VoiceAssistantState.sessionId := Some ''abc123''\<rparr>)
   \<and> fst (Chat_playTTS ''Rest'' (TtsFetchRejected (Error ''Failed to fetch'')) Chat_initial)
     = None
   \<and> fst (snd (Chat_playTTS ''Rest'' (TtsFetchRejected (Error ''Failed to fetch'')) Chat_initial))
     \<noteq> []
   \<and> fst (speakText ''Rest'' (TtsFetchRejected (Error ''Failed to fetch'')) SpeechService_initial)
     \<noteq> None"
proof -
  have failed: "tts_failed (TtsFetchRejected (Error ''Failed to fetch''))"
    by (simp add: tts_failed_def)
  have logged: "\<not> tts_not_ok (TtsFetchRejected (Error ''Failed to fetch''))"
    by (simp add: tts_not_ok_def)
  have voice: "playTTS ''Rest'' (TtsFetchRejected (Error ''Failed to fetch''))
        (VoiceAssistant_initial
           \<lparr>voiceState := speaking, history := [\<lparr>role = User, content = ''hi''\<rparr>],
            VoiceAssistantState.sessionId := Some ''abc123''\<rparr>)
     = (None, [(''TTS error:'', Error ''Failed to fetch'')],
        VoiceAssistant_initial
           \<lparr>voiceState := idle, history := [\<lparr>role = User, content = ''hi''\<rparr>],
            VoiceAssistantState.sessionId := Some ''abc123''\<rparr>)"
    by (simp add: playTTS_def playTTS_try_def VoiceAssistant_initial_def)
  show ?thesis
    using failed logged voice
      tts_failure_by_function [OF failed, of "''Rest''" Chat_initial _ SpeechService_initial]
    by blast
qed

text \<open>
  C9, as stated, fails.  On a synthesis response that is not ok, \<open>playTTS\<close> of the text
  surface logs nothing and sets no error.  \<open>speakText\<close> throws the failure to its caller, and
  \<open>handleSend\<close>, which awaits it after a successful reply, ends with a further assistant
  turn in the transcript.
\<close>

theorem tts_failure_silent_or_thrown:
  "Chat_playTTS ''Rest'' (TtsNotOk ''Service Unavailable'') Chat_initial = (None, [], Chat_initial)
   \<and> ChatState.error Chat_initial = None
   \<and> fst (speakText ''Rest'' (TtsNotOk ''Service Unavailable'') SpeechService_initial)
     = Some (Error ''TTS failed: Service Unavailable'')
   \<and> map content (AppState.messages (app
        (App_answer 0 (Responded 200 ''OK'' \<lparr>r_text = ''Rest'', r_session_id = ''abc123''\<rparr>)
           (fst (speakText ''Rest'' (TtsNotOk ''Service Unavailable'') SpeechService_initial)) 2
           (App_submit ''http://localhost:8000'' 1 ''what helps''
              \<lparr>app = App_initial, app_inflight = []\<rparr>))))
     = [''what helps'', ''Rest'', ''Connection error with Agent.'']"
  by (simp add: Chat_playTTS_def Chat_playTTS_try_def Chat_initial_def speakText_def
        stopSpeaking_service_def SpeechService_initial_def
        App_answer_def App_submit_def handleSend_begin_def handleSend_resume_def App_initial_def
        chatWithAgent_result_def chatWithAgent_fetch_def ok_def
        trim_def isWhiteSpace_def Let_def)

text \<open>
  C10.  On each of the three surfaces the session identifier after a reply is the returned
  one when that is a non-empty string, and the identifier of before otherwise: a reply
  with an empty \<open>session_id\<close>, like a failed send, leaves an established identifier in place.
\<close>

theorem session_id_adopted_only_when_nonempty:
  "ChatState.sessionId (fst (sendMessage_resume en f outcome s)) =
     (case chatWithAgent_result outcome of
        Inl e \<Rightarrow> ChatState.sessionId s
      | Inr p \<Rightarrow> if r_session_id p = [] then ChatState.sessionId s else Some (r_session_id p))
   \<and> VoiceAssistantState.sessionId (fst (handleUserSpeech_resume scope text outcome tts v)) =
     (case chatWithAgent_result outcome of
        Inl e \<Rightarrow> VoiceAssistantState.sessionId v
      | Inr p \<Rightarrow>
          if r_session_id p = [] then VoiceAssistantState.sessionId v else Some (r_session_id p))
   \<and> AppState.sessionId (handleSend_resume hf outcome speak now a) =
     (case chatWithAgent_result outcome of
        Inl e \<Rightarrow> AppState.sessionId a
      | Inr p \<Rightarrow> if r_session_id p = [] then AppState.sessionId a else Some (r_session_id p))"
  by (simp add: sendMessage_resume_def handleUserSpeech_resume_def handleSend_resume_def
        playTTS_def playTTS_try_def Let_def
      split: sum.splits option.splits tts_outcome.splits prod.splits)

theorem session_id_adopted_only_when_nonempty_witness:
  "ChatState.sessionId (fst (sendMessage_resume False \<lparr>f_messages = [], f_updatedMessages = []\<rparr>
      (Responded 200 ''OK'' \<lparr>r_text = ''hi'', r_session_id = []\<rparr>)
      (Chat_initial\<lparr>ChatState.sessionId := Some ''abc123''\<rparr>))) = Some ''abc123''
   \<and> AppState.sessionId (handleSend_resume \<lparr>f_isSpeechEnabled = False, f_isVoiceActive = False\<rparr>
      (Responded 200 ''OK'' \<lparr>r_text = ''hi'', r_session_id = ''xyz789''\<rparr>) None 1
      (App_initial\<lparr>AppState.sessionId := Some ''abc123''\<rparr>)) = Some ''xyz789''"
  using session_id_adopted_only_when_nonempty
          [of False "\<lparr>f_messages = [], f_updatedMessages = []\<rparr>"
              "Responded 200 ''OK'' \<lparr>r_text = ''hi'', r_session_id = []\<rparr>"
              "Chat_initial\<lparr>ChatState.sessionId := Some ''abc123''\<rparr>"]
        session_id_adopted_only_when_nonempty
          [of _ _ "Responded 200 ''OK'' \<lparr>r_text = ''hi'', r_session_id = ''xyz789''\<rparr>" _ _ _ _ _
              "\<lparr>f_isSpeechEnabled = False, f_isVoiceActive = False\<rparr>" None 1
              "App_initial\<lparr>AppState.sessionId := Some ''abc123''\<rparr>"]
  by (simp add: chatWithAgent_result_def ok_def Chat_initial_def App_initial_def)

end
